theory Spec2Isabelle
  imports Complex_Main
begin

section \<open>Python floats\<close>

text \<open>
  The intake is a Python \<^verbatim>\<open>float\<close> (held in a \<^verbatim>\<open>tk.DoubleVar\<close>), an IEEE-754
  binary64 number. A float is modelled as the real number it denotes, and every
  arithmetic operation of the source rounds its exact result to the nearest double,
  ties to the even significand (\<open>fl\<close>). Doubles have 53 significant bits; below
  \<open>2 powi - 1022\<close> the spacing stays that of the smallest binade (subnormal numbers).
  Infinities and NaN are not modelled: the exponent has no upper limit here, so the
  model agrees with Python on every operation whose result stays below
  \<open>2 powi 1024\<close>. Comparisons of floats with each other and with the integer
  \<^verbatim>\<open>DAILY_GOAL\<close> are exact in Python and are the order of the reals here.
\<close>

text \<open>\<open>binade x\<close> is the exponent \<open>e\<close> with \<open>2 powi e \<le> x < 2 powi (e + 1)\<close>, for \<open>0 < x\<close>.\<close>

function binade :: "real \<Rightarrow> int" where
  "binade x =
     (if x \<le> 0 then 0
      else if 2 \<le> x then binade (x / 2) + 1
      else if x < 1 then binade (2 * x) - 1
      else 0)"
  by pat_completeness auto
termination
proof (relation "measure (\<lambda>x. 2 * nat \<lceil>1 / x\<rceil> + nat \<lfloor>x\<rfloor>)", goal_cases)
  case 1
  show ?case by simp
next
  case (2 x)
  have "\<lfloor>x / 2\<rfloor> < \<lfloor>x\<rfloor>" using 2 by linarith
  moreover have "\<lceil>1 / (x / 2)\<rceil> \<le> \<lceil>1 / x\<rceil>"
  proof -
    have "0 < 1 / (x / 2)" "1 / (x / 2) \<le> 1" using 2 by (auto simp: field_simps)
    then have "\<lceil>1 / (x / 2)\<rceil> = 1" by linarith
    moreover have "0 < 1 / x" using 2 by simp
    then have "1 \<le> \<lceil>1 / x\<rceil>" by linarith
    ultimately show ?thesis by simp
  qed
  moreover have "0 \<le> \<lfloor>x / 2\<rfloor>" using 2 by simp
  ultimately show ?case by simp linarith
next
  case (3 x)
  have x: "0 < x" "x < 1" using 3 by auto
  then have "1 < 1 / x" by (simp add: field_simps)
  then have c: "2 \<le> \<lceil>1 / x\<rceil>" by linarith
  have "1 / (2 * x) = (1 / x) / 2" by simp
  then have "\<lceil>1 / (2 * x)\<rceil> \<le> \<lceil>1 / x\<rceil> - 1" using c by linarith
  moreover have "\<lfloor>2 * x\<rfloor> \<le> 1" using x by linarith
  moreover have "\<lfloor>x\<rfloor> = 0" using x by linarith
  ultimately show ?case using c by simp linarith
qed

text \<open>The spacing of the doubles around \<open>x\<close>.\<close>

definition ulp :: "real \<Rightarrow> real" where
  "ulp x = 2 powi (max (binade \<bar>x\<bar>) (- 1022) - 52)"

definition round_half_even :: "real \<Rightarrow> int" where
  "round_half_even m =
     (let f = \<lfloor>m\<rfloor>; d = m - of_int f
      in if d < 1 / 2 then f else if 1 / 2 < d then f + 1 else if even f then f else f + 1)"

definition fl :: "real \<Rightarrow> real" where
  "fl x = of_int (round_half_even (x / ulp x)) * ulp x"

definition py_add :: "real \<Rightarrow> real \<Rightarrow> real" where
  "py_add x y = fl (x + y)"

definition py_sub :: "real \<Rightarrow> real \<Rightarrow> real" where
  "py_sub x y = fl (x - y)"

definition py_mul :: "real \<Rightarrow> real \<Rightarrow> real" where
  "py_mul x y = fl (x * y)"

text \<open>The source divides by the non-zero constants 1000 and \<^verbatim>\<open>DAILY_GOAL\<close> only.\<close>

definition py_div :: "real \<Rightarrow> real \<Rightarrow> real" where
  "py_div x y = fl (x / y)"

section \<open>The data file\<close>

text \<open>
  What \<^verbatim>\<open>json.load\<close> returns: Python values. A JSON object is a \<^verbatim>\<open>dict\<close>, here the
  list of its items, each key once, read with \<open>map_of\<close> as \<^verbatim>\<open>dict.get\<close> reads it.
\<close>

datatype json =
    JNull
  | JBool bool
  | JInt int
  | JFloat real
  | JStr string
  | JArr "json list"
  | JObj "(string \<times> json) list"

text \<open>
  The exceptions that leave \<^verbatim>\<open>load_data\<close>: none of them is caught there.
\<close>

datatype py_error = AttributeError | TclError | UnicodeDecodeError | ValueError

text \<open>
  The state of \<^verbatim>\<open>DATA_FILE\<close>, as \<^verbatim>\<open>open\<close> and \<^verbatim>\<open>json.load\<close> see it:
  \<^item> \<open>Absent\<close>: no file, \<^verbatim>\<open>open\<close> raises \<^verbatim>\<open>FileNotFoundError\<close>;
  \<^item> \<open>Garbled\<close>: a text that is no JSON document, the empty file included;
    \<^verbatim>\<open>json.load\<close> raises \<^verbatim>\<open>json.JSONDecodeError\<close>;
  \<^item> \<open>Unreadable e\<close>: content on which reading or parsing raises another exception
    \<open>e\<close>: \<^verbatim>\<open>UnicodeDecodeError\<close> for bytes that are no text in the encoding of the
    locale, \<^verbatim>\<open>ValueError\<close> for an integer literal beyond the digit limit of the
    interpreter;
  \<^item> \<open>Document d\<close>: a JSON document, \<open>d\<close> being what \<^verbatim>\<open>json.load\<close> returns.

  \<^verbatim>\<open>json.dump\<close> followed by \<^verbatim>\<open>json.load\<close> gives back a dict of strings and floats as
  it was, so a written file is kept as the document written. Writing the file is taken
  to succeed.
\<close>

datatype stored = Absent | Garbled | Unreadable py_error | Document json

section \<open>The application\<close>

definition DAILY_GOAL :: real where
  "DAILY_GOAL = 2000"

text \<open>
  The labels hold the numbers their texts are formatted from:
  \<^verbatim>\<open>f"{intake_liters:.2f} L / {goal_liters:.1f} L"\<close> is \<open>Amount intake_liters goal_liters\<close>,
  \<^verbatim>\<open>"Goal Achieved! Keep it up!"\<close> is \<open>GoalAchieved\<close>, and
  \<^verbatim>\<open>f"You need {remaining / 1000:.2f} L more."\<close> is \<open>NeedMore (remaining / 1000)\<close>.
\<close>

datatype amount_text = NoAmount | Amount real real

datatype status_text = NoStatus | GoalAchieved | NeedMore real

text \<open>
  The state of \<^verbatim>\<open>WaterTrackerApp\<close> and of its surroundings: the \<^verbatim>\<open>DoubleVar\<close>, the data
  file with the number of times it was opened for writing, the three widgets
  \<^verbatim>\<open>update_display\<close> configures, and the number of "Goal Reached!" dialogs shown.
\<close>

record app =
  current_intake :: real
  data_file :: stored
  file_writes :: nat
  amount_label :: amount_text
  progress_bar :: real
  status_label :: status_text
  goal_dialogs :: nat

text \<open>\<open>today\<close> is \<^verbatim>\<open>str(date.today())\<close>, read from the clock by each call.\<close>

definition save_data :: "string \<Rightarrow> app \<Rightarrow> app" where
  "save_data today s =
     (let data = JObj [(''date'', JStr today), (''intake'', JFloat (current_intake s))]
      in s\<lparr>data_file := Document data, file_writes := Suc (file_writes s)\<rparr>)"

text \<open>
  \<^verbatim>\<open>self.current_intake.set(v)\<close> followed by \<^verbatim>\<open>self.current_intake.get()\<close>: a float
  comes back as it is and an int as the nearest float. What Tk reads from any other
  value (a numeric string is read as its number) is Tk's, not this program's: it is the
  parameter \<open>getdouble\<close>, which gives the number read, or \<open>None\<close> when
  \<^verbatim>\<open>get\<close> raises.
\<close>

definition DoubleVar_get :: "(json \<Rightarrow> real option) \<Rightarrow> json \<Rightarrow> real option" where
  "DoubleVar_get getdouble v =
     (case v of
        JFloat x \<Rightarrow> Some x
      | JInt n \<Rightarrow> Some (fl (of_int n))
      | _ \<Rightarrow> getdouble v)"

text \<open>
  \<^verbatim>\<open>load_data\<close> catches \<^verbatim>\<open>FileNotFoundError\<close> and \<^verbatim>\<open>json.JSONDecodeError\<close> only. Any
  other exception of \<^verbatim>\<open>open\<close> and \<^verbatim>\<open>json.load\<close> leaves it, and on a document that is
  no dict \<^verbatim>\<open>data.get\<close> raises \<^verbatim>\<open>AttributeError\<close>. A stored intake that Tk cannot read as
  a number makes the variable unreadable: the source raises at the next
  \<^verbatim>\<open>current_intake.get()\<close>, which \<^verbatim>\<open>__init__\<close> reaches in \<^verbatim>\<open>update_display\<close> right after
  the load; the model reports it as \<open>TclError\<close> where the value is stored.
\<close>

definition load_data :: "(json \<Rightarrow> real option) \<Rightarrow> string \<Rightarrow> app \<Rightarrow> py_error + app" where
  "load_data getdouble today s =
     (case data_file s of
        Absent \<Rightarrow> Inr (s\<lparr>current_intake := 0\<rparr>)
      | Garbled \<Rightarrow> Inr (s\<lparr>current_intake := 0\<rparr>)
      | Unreadable e \<Rightarrow> Inl e
      | Document data \<Rightarrow>
          (case data of
             JObj items \<Rightarrow>
               if map_of items ''date'' = Some (JStr today)
               then (case map_of items ''intake'' of
                       None \<Rightarrow> Inr (s\<lparr>current_intake := 0\<rparr>)
                     | Some v \<Rightarrow>
                         (case DoubleVar_get getdouble v of
                            Some x \<Rightarrow> Inr (s\<lparr>current_intake := x\<rparr>)
                          | None \<Rightarrow> Inl TclError))
               else Inr (save_data today (s\<lparr>current_intake := 0\<rparr>))
           | _ \<Rightarrow> Inl AttributeError))"

definition update_display :: "app \<Rightarrow> app" where
  "update_display s =
     (let intake_liters = py_div (current_intake s) 1000;
          goal_liters = py_div DAILY_GOAL 1000;
          progress_percentage = py_mul (py_div (current_intake s) DAILY_GOAL) 100
      in s\<lparr>amount_label := Amount intake_liters goal_liters,
            progress_bar := progress_percentage,
            status_label :=
              (if current_intake s \<ge> DAILY_GOAL then GoalAchieved
               else let remaining = py_sub DAILY_GOAL (current_intake s)
                    in NeedMore (py_div remaining 1000))\<rparr>)"

definition add_water :: "string \<Rightarrow> real \<Rightarrow> app \<Rightarrow> app" where
  "add_water today amount_ml s =
     (if current_intake s \<ge> DAILY_GOAL then s
      else
        let new_intake = py_add (current_intake s) amount_ml;
            s' = save_data today (update_display (s\<lparr>current_intake := new_intake\<rparr>))
        in if new_intake \<ge> DAILY_GOAL \<and> py_sub new_intake amount_ml < DAILY_GOAL
           then s'\<lparr>goal_dialogs := Suc (goal_dialogs s')\<rparr>
           else s')"

text \<open>\<open>yes\<close> is the answer to \<^verbatim>\<open>messagebox.askyesno\<close>.\<close>

definition reset_day :: "string \<Rightarrow> bool \<Rightarrow> app \<Rightarrow> app" where
  "reset_day today yes s =
     (if yes then save_data today (update_display (s\<lparr>current_intake := 0\<rparr>)) else s)"

text \<open>
  \<^verbatim>\<open>__init__\<close>: the variable starts at 0.0, the file found on \<open>disk\<close> is loaded, the
  widgets are created empty and \<^verbatim>\<open>update_display\<close> fills them.
\<close>

definition app_init :: "(json \<Rightarrow> real option) \<Rightarrow> string \<Rightarrow> stored \<Rightarrow> py_error + app" where
  "app_init getdouble today disk =
     (case load_data getdouble today
             \<lparr>current_intake = 0, data_file = disk, file_writes = 0, amount_label = NoAmount,
              progress_bar = 0, status_label = NoStatus, goal_dialogs = 0\<rparr> of
        Inl e \<Rightarrow> Inl e
      | Inr s \<Rightarrow> Inr (update_display s))"

section \<open>The record invariant and the reachable states\<close>

text \<open>
  The data model's invariant of the persisted record, \<^verbatim>\<open>intake >= 0\<close>, read on the file:
  what is stored under \<^verbatim>\<open>intake\<close> is not read as a negative number. Every file
  \<^verbatim>\<open>save_data\<close> writes from a non-negative intake is of this kind, and so is a file
  that is missing or cannot be read.
\<close>

definition stored_ok :: "(json \<Rightarrow> real option) \<Rightarrow> stored \<Rightarrow> bool" where
  "stored_ok getdouble f =
     (case f of
        Document (JObj items) \<Rightarrow>
          (case map_of items ''intake'' of
             None \<Rightarrow> True
           | Some v \<Rightarrow>
               (case DoubleVar_get getdouble v of
                  None \<Rightarrow> True
                | Some x \<Rightarrow> 0 \<le> x))
      | _ \<Rightarrow> True)"

text \<open>
  The states a run of the program can be in, from the file found at startup: the
  initial load, and then any sequence of loads, additions of a positive amount (the two
  buttons add 250 and 500, \<^verbatim>\<open>add_custom_amount\<close> passes on positive numbers only) and
  resets, each on the date of its day.
\<close>

inductive reachable :: "(json \<Rightarrow> real option) \<Rightarrow> stored \<Rightarrow> app \<Rightarrow> bool"
  for getdouble :: "json \<Rightarrow> real option" and disk :: stored where
  start: "app_init getdouble today disk = Inr s \<Longrightarrow> reachable getdouble disk s"
| load: "reachable getdouble disk s \<Longrightarrow> load_data getdouble today s = Inr s' \<Longrightarrow>
         reachable getdouble disk s'"
| add: "reachable getdouble disk s \<Longrightarrow> 0 < amount_ml \<Longrightarrow>
        reachable getdouble disk (add_water today amount_ml s)"
| reset: "reachable getdouble disk s \<Longrightarrow> reachable getdouble disk (reset_day today yes s)"

section \<open>Rounding\<close>

declare binade.simps [simp del]

lemma binade_bounds: "0 < x \<Longrightarrow> 2 powi binade x \<le> x \<and> x < 2 powi (binade x + 1)"
proof (induction x rule: binade.induct)
  case (1 x)
  show ?case
  proof (cases "2 \<le> x")
    case True
    then have b: "binade x = binade (x / 2) + 1"
      using 1(3) by (subst binade.simps) simp
    have "2 powi binade (x / 2) \<le> x / 2 \<and> x / 2 < 2 powi (binade (x / 2) + 1)"
      using 1(1) 1(3) True by simp
    then show ?thesis
      unfolding b by (simp add: power_int_add field_simps)
  next
    case False
    show ?thesis
    proof (cases "x < 1")
      case True
      then have b: "binade x = binade (2 * x) - 1"
        using 1(3) False by (subst binade.simps) simp
      have "2 powi binade (2 * x) \<le> 2 * x \<and> 2 * x < 2 powi (binade (2 * x) + 1)"
        using 1(2) 1(3) True False by simp
      then show ?thesis
        unfolding b by (simp add: power_int_add power_int_diff field_simps)
    next
      case nlt: False
      then have "binade x = 0"
        using 1(3) False by (subst binade.simps) simp
      then show ?thesis
        using False nlt by simp
    qed
  qed
qed

lemma binade_eqI:
  assumes "2 powi e \<le> x" and "x < 2 powi (e + 1)"
  shows "binade x = e"
proof -
  have "(0::real) < 2 powi e" by simp
  then have x: "0 < x" using assms(1) by linarith
  note b = binade_bounds [OF x]
  have "e < binade x + 1"
  proof (rule ccontr)
    assume "\<not> e < binade x + 1"
    then have "(2::real) powi (binade x + 1) \<le> 2 powi e"
      by (intro power_int_increasing) auto
    then show False using assms b by linarith
  qed
  moreover have "binade x < e + 1"
  proof (rule ccontr)
    assume "\<not> binade x < e + 1"
    then have "(2::real) powi (e + 1) \<le> 2 powi binade x"
      by (intro power_int_increasing) auto
    then show False using assms b by linarith
  qed
  ultimately show ?thesis by simp
qed

lemma ulp_pos: "0 < ulp x"
  by (simp add: ulp_def)

lemma round_half_even_nonneg: "0 \<le> m \<Longrightarrow> 0 \<le> round_half_even m"
  by (auto simp: round_half_even_def Let_def)

lemma fl_nonneg: "0 \<le> x \<Longrightarrow> 0 \<le> fl x"
  unfolding fl_def using ulp_pos [of x]
  by (intro mult_nonneg_nonneg) (auto intro!: round_half_even_nonneg)

lemma fl_0: "fl 0 = 0"
  by (simp add: fl_def round_half_even_def)

text \<open>Evaluating \<open>fl\<close> at a number whose binade is known.\<close>

lemma fl_eval:
  assumes "2 powi e \<le> \<bar>x\<bar>" and "\<bar>x\<bar> < 2 powi (e + 1)" and "- 1022 \<le> e"
  shows "fl x = of_int (round_half_even (x / 2 powi (e - 52))) * 2 powi (e - 52)"
proof -
  have "binade \<bar>x\<bar> = e" using assms(1,2) by (rule binade_eqI)
  then have "ulp x = 2 powi (e - 52)" using assms(3) by (simp add: ulp_def)
  then show ?thesis by (simp add: fl_def)
qed

lemma round_half_even_of_int: "round_half_even (of_int k) = k"
  by (simp add: round_half_even_def)

text \<open>Powers of two are doubles.\<close>

lemma fl_power2: "fl (2 ^ n) = 2 ^ n"
proof -
  have "fl (2 ^ n) = of_int (round_half_even (2 ^ n / 2 powi (int n - 52))) * 2 powi (int n - 52)"
    by (rule fl_eval) (simp_all add: power_int_add)
  also have "(2::real) ^ n / 2 powi (int n - 52) = of_int (2 ^ 52)"
    by (simp add: power_int_diff)
  also have "real_of_int (round_half_even (of_int (2 ^ 52))) = 2 powi 52"
    by (simp only: round_half_even_of_int) simp
  also have "(2::real) powi 52 * 2 powi (int n - 52) = 2 ^ n"
    by (simp add: power_int_diff)
  finally show ?thesis .
qed

text \<open>The values the examples below compute with.\<close>

lemma fl_2: "fl 2 = 2"
  using fl_eval [where x = 2 and e = 1] by (simp add: round_half_even_def)

lemma fl_1750: "fl 1750 = 1750"
  using fl_eval [where x = 1750 and e = 10] by (simp add: round_half_even_def)

lemma fl_2000: "fl 2000 = 2000"
  using fl_eval [where x = 2000 and e = 10] by (simp add: round_half_even_def)

lemma fl_2250: "fl 2250 = 2250"
  using fl_eval [where x = 2250 and e = 11] by (simp add: round_half_even_def)

text \<open>
  \<open>2000 - 1 / 2 ^ 42\<close> is the double next below 2000, which Python prints as
  \<^verbatim>\<open>1999.9999999999998\<close>. Adding 100 to it gives a number halfway between the doubles
  \<open>2100 - 1 / 2 ^ 41\<close> and \<open>2100\<close>; the tie goes to \<open>2100\<close>.
\<close>

lemma fl_below_2000: "fl (2000 - 1 / 2 ^ 42) = 2000 - 1 / 2 ^ 42"
  using fl_eval [where x = "2000 - 1 / 2 ^ 42" and e = 10] by (simp add: round_half_even_def)

lemma fl_below_2000_plus_100: "fl (2000 - 1 / 2 ^ 42 + 100) = 2100"
  using fl_eval [where x = "2000 - 1 / 2 ^ 42 + 100" and e = 11]
  by (simp add: round_half_even_def)

section \<open>What the operations change\<close>

lemma update_display_keeps:
  "current_intake (update_display s) = current_intake s"
  "data_file (update_display s) = data_file s"
  by (simp_all add: update_display_def Let_def)

lemma add_water_fields:
  "current_intake (add_water today amount_ml s) =
     (if current_intake s \<ge> DAILY_GOAL then current_intake s
      else py_add (current_intake s) amount_ml)"
  "goal_dialogs (add_water today amount_ml s) =
     (if current_intake s < DAILY_GOAL \<and> py_add (current_intake s) amount_ml \<ge> DAILY_GOAL \<and>
         py_sub (py_add (current_intake s) amount_ml) amount_ml < DAILY_GOAL
      then Suc (goal_dialogs s) else goal_dialogs s)"
  by (auto simp: add_water_def save_data_def update_display_def Let_def)

lemma app_init_Absent:
  "app_init getdouble today Absent =
     Inr (update_display \<lparr>current_intake = 0, data_file = Absent, file_writes = 0,
       amount_label = NoAmount, progress_bar = 0, status_label = NoStatus, goal_dialogs = 0\<rparr>)"
  by (simp add: app_init_def load_data_def)

lemma load_data_keeps_ok:
  assumes "stored_ok getdouble (data_file s)" and "load_data getdouble today s = Inr s'"
  shows "0 \<le> current_intake s' \<and> stored_ok getdouble (data_file s')"
proof (cases "data_file s")
  case Absent
  then show ?thesis using assms by (auto simp: load_data_def)
next
  case Garbled
  then show ?thesis using assms by (auto simp: load_data_def)
next
  case (Unreadable e)
  then show ?thesis using assms by (simp add: load_data_def)
next
  case (Document data)
  show ?thesis
  proof (cases data)
    case (JObj items)
    show ?thesis
    proof (cases "map_of items ''date'' = Some (JStr today)")
      case True
      then show ?thesis
        using assms Document JObj
        by (auto simp: load_data_def stored_ok_def split: option.splits)
    next
      case False
      then show ?thesis
        using assms Document JObj
        by (auto simp: load_data_def save_data_def stored_ok_def DoubleVar_get_def)
    qed
  qed (use assms Document in \<open>simp_all add: load_data_def\<close>)
qed

lemma add_water_keeps_ok:
  assumes "0 \<le> current_intake s" and "stored_ok getdouble (data_file s)" and "0 < amount_ml"
  shows "0 \<le> current_intake (add_water today amount_ml s) \<and>
         stored_ok getdouble (data_file (add_water today amount_ml s))"
  using assms fl_nonneg [of "current_intake s + amount_ml"]
  by (simp add: add_water_def save_data_def update_display_keeps stored_ok_def
      DoubleVar_get_def py_add_def Let_def)

lemma reset_day_keeps_ok:
  assumes "0 \<le> current_intake s" and "stored_ok getdouble (data_file s)"
  shows "0 \<le> current_intake (reset_day today yes s) \<and>
         stored_ok getdouble (data_file (reset_day today yes s))"
  using assms
  by (simp add: reset_day_def save_data_def update_display_keeps stored_ok_def DoubleVar_get_def)

lemma reachable_ok:
  assumes "stored_ok getdouble disk" and "reachable getdouble disk s"
  shows "0 \<le> current_intake s \<and> stored_ok getdouble (data_file s)"
  using assms(2)
proof (induction rule: reachable.induct)
  case (start today s)
  then obtain s0 where l: "load_data getdouble today
      \<lparr>current_intake = 0, data_file = disk, file_writes = 0, amount_label = NoAmount,
       progress_bar = 0, status_label = NoStatus, goal_dialogs = 0\<rparr> = Inr s0"
    and s: "s = update_display s0"
    by (auto simp: app_init_def split: sum.splits)
  from load_data_keeps_ok [OF _ l] assms(1) show ?case
    by (simp add: s update_display_keeps)
next
  case (load s today s')
  then show ?case using load_data_keeps_ok by blast
next
  case (add s amount_ml today)
  then show ?case using add_water_keeps_ok by blast
next
  case (reset s today yes)
  then show ?case using reset_day_keeps_ok by blast
qed

text \<open>After a reset, one addition of a large enough amount passes any bound.\<close>

lemma exceeds_any_bound:
  assumes "reachable getdouble disk s"
  shows "\<exists>s'. reachable getdouble disk s' \<and> B < current_intake s'"
proof -
  obtain n :: nat where n: "B < 2 ^ n"
    using real_arch_pow [of 2 B] by auto
  let ?r = "reset_day [] True s"
  let ?s = "add_water [] (2 ^ n) ?r"
  have "reachable getdouble disk ?r" using assms by (rule reachable.reset)
  then have "reachable getdouble disk ?s" by (rule reachable.add) simp
  moreover have "current_intake ?r = 0"
    by (simp add: reset_day_def save_data_def update_display_keeps)
  then have "current_intake ?s = 2 ^ n"
    by (simp add: add_water_def DAILY_GOAL_def py_add_def fl_power2 save_data_def
        update_display_keeps Let_def)
  ultimately show ?thesis using n by auto
qed

section \<open>Adding water\<close>

text \<open>
  C1: once the intake has reached the goal, \<^verbatim>\<open>add_water\<close> returns at once, whatever the
  amount: the whole state is as before, the intake, the file and the number of times the
  file was written included.
\<close>

theorem add_water_noop_at_goal:
  "current_intake s \<ge> DAILY_GOAL \<Longrightarrow> add_water today amount_ml s = s"
  by (simp add: add_water_def)

theorem add_water_noop_at_goal_witness:
  "DAILY_GOAL \<le> 2250 \<and>
   add_water ''2024-06-01'' 100
     \<lparr>current_intake = 2250, data_file = Absent, file_writes = 0, amount_label = NoAmount,
      progress_bar = 0, status_label = NoStatus, goal_dialogs = 0\<rparr> =
     \<lparr>current_intake = 2250, data_file = Absent, file_writes = 0, amount_label = NoAmount,
      progress_bar = 0, status_label = NoStatus, goal_dialogs = 0\<rparr>"
  using add_water_noop_at_goal [of "\<lparr>current_intake = 2250, data_file = Absent, file_writes = 0,
      amount_label = NoAmount, progress_bar = 0, status_label = NoStatus, goal_dialogs = 0\<rparr>"
      "''2024-06-01''" 100]
  by (simp add: DAILY_GOAL_def)

text \<open>
  C2: below the goal, adding a positive amount sets the intake to the old intake plus
  the amount (the float sum \<open>py_add\<close>, as Python computes it) and writes that value to
  the file, under today's date.
\<close>

theorem add_water_adds_and_saves:
  assumes "0 < amount_ml" and "current_intake s < DAILY_GOAL"
  shows "current_intake (add_water today amount_ml s) = py_add (current_intake s) amount_ml \<and>
         data_file (add_water today amount_ml s) =
           Document (JObj [(''date'', JStr today),
                           (''intake'', JFloat (py_add (current_intake s) amount_ml))]) \<and>
         file_writes (add_water today amount_ml s) = Suc (file_writes s)"
  using assms by (simp add: add_water_def save_data_def update_display_def Let_def)

theorem add_water_adds_and_saves_witness:
  "(0::real) < 500 \<and> (1750::real) < DAILY_GOAL \<and>
   current_intake (add_water ''2024-06-01'' 500
     \<lparr>current_intake = 1750, data_file = Absent, file_writes = 0, amount_label = NoAmount,
      progress_bar = 0, status_label = NoStatus, goal_dialogs = 0\<rparr>) = 2250 \<and>
   data_file (add_water ''2024-06-01'' 500
     \<lparr>current_intake = 1750, data_file = Absent, file_writes = 0, amount_label = NoAmount,
      progress_bar = 0, status_label = NoStatus, goal_dialogs = 0\<rparr>) =
     Document (JObj [(''date'', JStr ''2024-06-01''), (''intake'', JFloat 2250)])"
  using add_water_adds_and_saves [of 500 "\<lparr>current_intake = 1750, data_file = Absent,
      file_writes = 0, amount_label = NoAmount, progress_bar = 0, status_label = NoStatus,
      goal_dialogs = 0\<rparr>" "''2024-06-01''"] fl_2250
  by (simp add: DAILY_GOAL_def py_add_def)

subsection \<open>The goal dialog\<close>

text \<open>
  The dialog is shown only by a call that takes the intake from below the goal to the
  goal or above it: never once the goal is met, and never while it is still out of reach.
\<close>

lemma goal_dialog_only_on_crossing:
  assumes "goal_dialogs (add_water today amount_ml s) \<noteq> goal_dialogs s"
  shows "current_intake s < DAILY_GOAL \<and> DAILY_GOAL \<le> current_intake (add_water today amount_ml s)"
  using assms by (auto simp: add_water_fields split: if_splits)

text \<open>The step from 1750 to 2250 of the spec's scenario shows it.\<close>

lemma goal_dialog_scenario:
  "goal_dialogs (add_water ''2024-06-01'' 500
     \<lparr>current_intake = 1750, data_file = Absent, file_writes = 0, amount_label = NoAmount,
      progress_bar = 0, status_label = NoStatus, goal_dialogs = 0\<rparr>) = 1"
  using fl_2250 fl_1750 by (simp add: add_water_fields DAILY_GOAL_def py_add_def py_sub_def)

text \<open>
  The source does not compare the intake it read before the addition with the goal: it
  recomputes it as \<^verbatim>\<open>new_intake - amount_ml\<close>, and both the sum and the difference are
  rounded. A run from a missing file, first adding \<open>a\<close> and then 100:
\<close>

lemma missed_dialog_run:
  assumes "fl a = a" and "a < 2000" and "fl (a + 100) = 2100"
  shows "app_init getdouble today Absent =
     Inr (update_display \<lparr>current_intake = 0, data_file = Absent, file_writes = 0,
       amount_label = NoAmount, progress_bar = 0, status_label = NoStatus, goal_dialogs = 0\<rparr>) \<and>
   current_intake (add_water today a
     (update_display \<lparr>current_intake = 0, data_file = Absent, file_writes = 0,
       amount_label = NoAmount, progress_bar = 0, status_label = NoStatus, goal_dialogs = 0\<rparr>))
     = a \<and>
   a < DAILY_GOAL \<and>
   current_intake (add_water today 100 (add_water today a
     (update_display \<lparr>current_intake = 0, data_file = Absent, file_writes = 0,
       amount_label = NoAmount, progress_bar = 0, status_label = NoStatus, goal_dialogs = 0\<rparr>)))
     = 2100 \<and>
   DAILY_GOAL \<le> 2100 \<and>
   goal_dialogs (add_water today 100 (add_water today a
     (update_display \<lparr>current_intake = 0, data_file = Absent, file_writes = 0,
       amount_label = NoAmount, progress_bar = 0, status_label = NoStatus, goal_dialogs = 0\<rparr>)))
     = 0"
  using assms fl_2000
  by (simp add: app_init_Absent add_water_fields update_display_keeps update_display_def
      DAILY_GOAL_def py_add_def py_sub_def)

text \<open>
  C3: the goal dialog is to be shown exactly by the call that takes the intake from
  below the goal to the goal or above. The source misses such a call: started without a
  file, the user adds 1999.9999999999998 (the double \<open>2000 - 1 / 2 ^ 42\<close>) and then 100.
  The intake goes from below 2000 to 2100.0, but \<^verbatim>\<open>new_intake - amount_ml\<close> is 2000.0,
  which is not below the goal, and no dialog has been shown.
\<close>

theorem add_water_misses_goal_dialog:
  "app_init (\<lambda>v. None) ''2024-06-01'' Absent =
     Inr (update_display \<lparr>current_intake = 0, data_file = Absent, file_writes = 0,
       amount_label = NoAmount, progress_bar = 0, status_label = NoStatus, goal_dialogs = 0\<rparr>) \<and>
   current_intake (add_water ''2024-06-01'' (2000 - 1 / 2 ^ 42)
     (update_display \<lparr>current_intake = 0, data_file = Absent, file_writes = 0,
       amount_label = NoAmount, progress_bar = 0, status_label = NoStatus, goal_dialogs = 0\<rparr>))
     = 2000 - 1 / 2 ^ 42 \<and>
   2000 - 1 / 2 ^ 42 < DAILY_GOAL \<and>
   current_intake (add_water ''2024-06-01'' 100 (add_water ''2024-06-01'' (2000 - 1 / 2 ^ 42)
     (update_display \<lparr>current_intake = 0, data_file = Absent, file_writes = 0,
       amount_label = NoAmount, progress_bar = 0, status_label = NoStatus, goal_dialogs = 0\<rparr>)))
     = 2100 \<and>
   DAILY_GOAL \<le> 2100 \<and>
   goal_dialogs (add_water ''2024-06-01'' 100 (add_water ''2024-06-01'' (2000 - 1 / 2 ^ 42)
     (update_display \<lparr>current_intake = 0, data_file = Absent, file_writes = 0,
       amount_label = NoAmount, progress_bar = 0, status_label = NoStatus, goal_dialogs = 0\<rparr>)))
     = 0"
  by (rule missed_dialog_run [OF fl_below_2000 _ fl_below_2000_plus_100]) simp

section \<open>Saving\<close>

text \<open>
  C4: \<^verbatim>\<open>save_data\<close> replaces whatever the file held by exactly the two items
  \<^verbatim>\<open>date\<close> and \<^verbatim>\<open>intake\<close> of the record being saved, which is today's date and the
  current intake; nothing of the earlier content is kept.
\<close>

theorem save_data_overwrites:
  "data_file (save_data today (s\<lparr>data_file := old\<rparr>)) =
     Document (JObj [(''date'', JStr today), (''intake'', JFloat (current_intake s))])"
  by (simp add: save_data_def)

section \<open>Loading\<close>

text \<open>
  C5: when the file holds a record whose date is not today's, \<^verbatim>\<open>load_data\<close> sets the
  intake to 0 and writes the record of today with intake 0 to the file, in the same
  call; it returns normally.
\<close>

theorem load_data_new_day:
  assumes "data_file s = Document (JObj items)"
    and "map_of items ''date'' \<noteq> Some (JStr today)"
  shows "load_data getdouble today s =
           Inr (s\<lparr>current_intake := 0,
                  data_file := Document (JObj [(''date'', JStr today), (''intake'', JFloat 0)]),
                  file_writes := Suc (file_writes s)\<rparr>)"
  using assms by (simp add: load_data_def save_data_def)

theorem load_data_new_day_witness:
  "data_file \<lparr>current_intake = 0,
      data_file = Document (JObj [(''date'', JStr ''2024-05-31''), (''intake'', JFloat 1750)]),
      file_writes = 0, amount_label = NoAmount, progress_bar = 0, status_label = NoStatus,
      goal_dialogs = 0\<rparr> =
     Document (JObj [(''date'', JStr ''2024-05-31''), (''intake'', JFloat 1750)]) \<and>
   map_of [(''date'', JStr ''2024-05-31''), (''intake'', JFloat 1750)] ''date'' \<noteq>
     Some (JStr ''2024-06-01'') \<and>
   load_data (\<lambda>v. None) ''2024-06-01'' \<lparr>current_intake = 0,
      data_file = Document (JObj [(''date'', JStr ''2024-05-31''), (''intake'', JFloat 1750)]),
      file_writes = 0, amount_label = NoAmount, progress_bar = 0, status_label = NoStatus,
      goal_dialogs = 0\<rparr> =
     Inr \<lparr>current_intake = 0,
      data_file = Document (JObj [(''date'', JStr ''2024-06-01''), (''intake'', JFloat 0)]),
      file_writes = 1, amount_label = NoAmount, progress_bar = 0, status_label = NoStatus,
      goal_dialogs = 0\<rparr>"
  using load_data_new_day [of "\<lparr>current_intake = 0,
      data_file = Document (JObj [(''date'', JStr ''2024-05-31''), (''intake'', JFloat 1750)]),
      file_writes = 0, amount_label = NoAmount, progress_bar = 0, status_label = NoStatus,
      goal_dialogs = 0\<rparr>" "[(''date'', JStr ''2024-05-31''), (''intake'', JFloat 1750)]"
      "''2024-06-01''" "\<lambda>v. None"]
  by simp

subsection \<open>Files that cannot be parsed\<close>

text \<open>
  Not every file that cannot be parsed is absorbed. Bytes that are no text make
  \<^verbatim>\<open>json.load\<close> raise \<^verbatim>\<open>UnicodeDecodeError\<close>, and a JSON document that is no object
  (\<^verbatim>\<open>null\<close>, a list) is parsed and then fails in \<^verbatim>\<open>data.get\<close> with
  \<^verbatim>\<open>AttributeError\<close>: neither is caught, so both reach the caller.
\<close>

theorem load_data_raises:
  "load_data (\<lambda>v. None) ''2024-06-01''
     \<lparr>current_intake = 850, data_file = Unreadable UnicodeDecodeError, file_writes = 0,
      amount_label = NoAmount, progress_bar = 0, status_label = NoStatus, goal_dialogs = 0\<rparr> =
     Inl UnicodeDecodeError \<and>
   load_data (\<lambda>v. None) ''2024-06-01''
     \<lparr>current_intake = 850, data_file = Document JNull, file_writes = 0,
      amount_label = NoAmount, progress_bar = 0, status_label = NoStatus, goal_dialogs = 0\<rparr> =
     Inl AttributeError \<and>
   load_data (\<lambda>v. None) ''2024-06-01''
     \<lparr>current_intake = 850, data_file = Document (JArr []), file_writes = 0,
      amount_label = NoAmount, progress_bar = 0, status_label = NoStatus, goal_dialogs = 0\<rparr> =
     Inl AttributeError"
  by (simp add: load_data_def)

text \<open>
  C6, for what the source catches: when there is no file, or the JSON parser rejects its
  text (\<^verbatim>\<open>json.JSONDecodeError\<close>, the empty file included), \<^verbatim>\<open>load_data\<close> returns
  normally with the intake set to 0, the value a new day gives, whatever the intake was
  before; nothing else changes and nothing is written.
\<close>

theorem load_data_no_file:
  assumes "data_file s = Absent \<or> data_file s = Garbled"
  shows "load_data getdouble today s = Inr (s\<lparr>current_intake := 0\<rparr>)"
  using assms by (auto simp: load_data_def)

theorem load_data_no_file_witness:
  "load_data (\<lambda>v. None) ''2024-06-01'' \<lparr>current_intake = 850, data_file = Absent,
      file_writes = 3, amount_label = NoAmount, progress_bar = 0, status_label = NoStatus,
      goal_dialogs = 0\<rparr> =
     Inr \<lparr>current_intake = 0, data_file = Absent, file_writes = 3,
      amount_label = NoAmount, progress_bar = 0, status_label = NoStatus, goal_dialogs = 0\<rparr> \<and>
   load_data (\<lambda>v. None) ''2024-06-01'' \<lparr>current_intake = 850, data_file = Garbled,
      file_writes = 3, amount_label = NoAmount, progress_bar = 0, status_label = NoStatus,
      goal_dialogs = 0\<rparr> =
     Inr \<lparr>current_intake = 0, data_file = Garbled, file_writes = 3,
      amount_label = NoAmount, progress_bar = 0, status_label = NoStatus, goal_dialogs = 0\<rparr>"
  using load_data_no_file [of "\<lparr>current_intake = 850, data_file = Absent, file_writes = 3,
      amount_label = NoAmount, progress_bar = 0, status_label = NoStatus, goal_dialogs = 0\<rparr>"
      "\<lambda>v. None" "''2024-06-01''"]
    load_data_no_file [of "\<lparr>current_intake = 850, data_file = Garbled, file_writes = 3,
      amount_label = NoAmount, progress_bar = 0, status_label = NoStatus, goal_dialogs = 0\<rparr>"
      "\<lambda>v. None" "''2024-06-01''"]
  by simp

text \<open>
  C10: a file that holds a dict with today's date and no \<^verbatim>\<open>intake\<close> key is not taken
  for a corrupt one: \<^verbatim>\<open>load_data\<close> returns normally, with the default 0.0 as the intake.
\<close>

theorem load_data_no_intake_key:
  assumes "data_file s = Document (JObj items)"
    and "map_of items ''date'' = Some (JStr today)"
    and "map_of items ''intake'' = None"
  shows "load_data getdouble today s = Inr (s\<lparr>current_intake := 0\<rparr>)"
  using assms by (simp add: load_data_def)

theorem load_data_no_intake_key_witness:
  "map_of [(''date'', JStr ''2024-06-01'')] ''date'' = Some (JStr ''2024-06-01'') \<and>
   map_of [(''date'', JStr ''2024-06-01'')] ''intake'' = None \<and>
   load_data (\<lambda>v. None) ''2024-06-01'' \<lparr>current_intake = 850,
      data_file = Document (JObj [(''date'', JStr ''2024-06-01'')]),
      file_writes = 0, amount_label = NoAmount, progress_bar = 0, status_label = NoStatus,
      goal_dialogs = 0\<rparr> =
     Inr \<lparr>current_intake = 0,
      data_file = Document (JObj [(''date'', JStr ''2024-06-01'')]),
      file_writes = 0, amount_label = NoAmount, progress_bar = 0, status_label = NoStatus,
      goal_dialogs = 0\<rparr>"
  using load_data_no_intake_key [of "\<lparr>current_intake = 850,
      data_file = Document (JObj [(''date'', JStr ''2024-06-01'')]),
      file_writes = 0, amount_label = NoAmount, progress_bar = 0, status_label = NoStatus,
      goal_dialogs = 0\<rparr>" "[(''date'', JStr ''2024-06-01'')]" "''2024-06-01''" "\<lambda>v. None"]
  by simp

text \<open>
  C8: what \<^verbatim>\<open>save_data\<close> wrote, \<^verbatim>\<open>load_data\<close> reads back on the same day. Whatever
  value \<open>v\<close> the variable holds when the load starts (a fresh process starts at 0.0),
  the load returns normally and the state is the one the save left, with the intake
  that was saved: the loaded intake comes from the file.
\<close>

theorem save_then_load:
  "load_data getdouble today ((save_data today s)\<lparr>current_intake := v\<rparr>) =
     Inr (save_data today s) \<and>
   current_intake (save_data today s) = current_intake s \<and>
   data_file (save_data today s) =
     Document (JObj [(''date'', JStr today), (''intake'', JFloat (current_intake s))])"
  by (simp add: load_data_def save_data_def DoubleVar_get_def)

section \<open>Resetting\<close>

text \<open>
  C7: a confirmed reset, in any state, sets the intake to 0 and writes the zeroed record
  of today; it shows no goal dialog, and the display tells the whole goal as remaining
  (\<^verbatim>\<open>remaining\<close> is \<^verbatim>\<open>DAILY_GOAL\<close>, shown in litres).
\<close>

theorem reset_day_zeroes:
  "current_intake (reset_day today True s) = 0 \<and>
   data_file (reset_day today True s) =
     Document (JObj [(''date'', JStr today), (''intake'', JFloat 0)]) \<and>
   file_writes (reset_day today True s) = Suc (file_writes s) \<and>
   goal_dialogs (reset_day today True s) = goal_dialogs s \<and>
   py_sub DAILY_GOAL (current_intake (reset_day today True s)) = DAILY_GOAL \<and>
   status_label (reset_day today True s) = NeedMore (DAILY_GOAL / 1000)"
  using fl_2000 fl_2
  by (simp add: reset_day_def save_data_def update_display_def DAILY_GOAL_def py_sub_def py_div_def)

section \<open>The intake is never negative\<close>

text \<open>
  A stored intake is not checked when it is loaded: a file of today with a negative
  intake puts that intake into the variable, be it stored as a number or as a string
  that Tk reads as a number.
\<close>

theorem negative_intake_loaded:
  "map_sum id current_intake
     (app_init (\<lambda>v. None) ''2024-06-01''
        (Document (JObj [(''date'', JStr ''2024-06-01''), (''intake'', JFloat (- 5))]))) =
   Inr (- 5) \<and>
   map_sum id current_intake
     (app_init (\<lambda>v. if v = JStr ''-5'' then Some (- 5) else None) ''2024-06-01''
        (Document (JObj [(''date'', JStr ''2024-06-01''), (''intake'', JStr ''-5'')]))) =
   Inr (- 5)"
  by (simp add: app_init_def load_data_def DoubleVar_get_def update_display_keeps)

text \<open>
  C9, for a file that keeps the record invariant at startup, whatever Tk reads from
  values that are no numbers: in every state reached by loads, additions of positive
  amounts and resets, the intake in the variable is not negative and the file keeps the
  invariant; and no bound is put on the intake, as from every such state a state with an
  intake above any given \<open>B\<close> can be reached.
\<close>

theorem intake_invariant:
  assumes "stored_ok getdouble disk" and "reachable getdouble disk s"
  shows "0 \<le> current_intake s \<and> stored_ok getdouble (data_file s) \<and>
         (\<exists>s'. reachable getdouble disk s' \<and> B < current_intake s')"
  using reachable_ok [OF assms] exceeds_any_bound [OF assms(2), of B] by simp

text \<open>An instance: the intake is stored as the string 250, which Tk reads as 250.0.\<close>

theorem intake_invariant_witness:
  "stored_ok (\<lambda>v. if v = JStr ''250'' then Some 250 else None)
     (Document (JObj [(''date'', JStr ''2024-06-01''), (''intake'', JStr ''250'')])) \<and>
   reachable (\<lambda>v. if v = JStr ''250'' then Some 250 else None)
     (Document (JObj [(''date'', JStr ''2024-06-01''), (''intake'', JStr ''250'')]))
     (add_water ''2024-06-01'' 500
        (update_display \<lparr>current_intake = 250,
           data_file = Document (JObj [(''date'', JStr ''2024-06-01''), (''intake'', JStr ''250'')]),
           file_writes = 0, amount_label = NoAmount, progress_bar = 0, status_label = NoStatus,
           goal_dialogs = 0\<rparr>)) \<and>
   0 \<le> current_intake (add_water ''2024-06-01'' 500
        (update_display \<lparr>current_intake = 250,
           data_file = Document (JObj [(''date'', JStr ''2024-06-01''), (''intake'', JStr ''250'')]),
           file_writes = 0, amount_label = NoAmount, progress_bar = 0, status_label = NoStatus,
           goal_dialogs = 0\<rparr>)) \<and>
   (\<exists>s'. reachable (\<lambda>v. if v = JStr ''250'' then Some 250 else None)
      (Document (JObj [(''date'', JStr ''2024-06-01''), (''intake'', JStr ''250'')])) s'
      \<and> 1000000 < current_intake s')"
proof -
  let ?g = "\<lambda>v. if v = JStr ''250'' then Some (250::real) else None"
  let ?disk = "Document (JObj [(''date'', JStr ''2024-06-01''), (''intake'', JStr ''250'')])"
  let ?s0 = "update_display \<lparr>current_intake = 250, data_file = ?disk,
           file_writes = 0, amount_label = NoAmount, progress_bar = 0, status_label = NoStatus,
           goal_dialogs = 0\<rparr>"
  have ok: "stored_ok ?g ?disk"
    by (simp add: stored_ok_def DoubleVar_get_def)
  have "app_init ?g ''2024-06-01'' ?disk = Inr ?s0"
    by (simp add: app_init_def load_data_def DoubleVar_get_def)
  then have "reachable ?g ?disk ?s0"
    by (rule reachable.start)
  then have r: "reachable ?g ?disk (add_water ''2024-06-01'' 500 ?s0)"
    by (rule reachable.add) simp
  from intake_invariant [OF ok r, of 1000000] ok r show ?thesis
    by simp
qed

end
